theory Spec2Isabelle
  imports Main "HOL-Library.Sublist"
begin

section \<open>Strings as Python sees them\<close>

text \<open>
  Python strings are sequences of code points. They are modelled by \<open>string\<close>; a
  \<open>char\<close> stands for a code point in the range U+0000 .. U+00FF. On that range
  \<open>str.isspace\<close> holds for the code points 9-13, 28-32, 133 and 160, which is also what
  \<open>\s\<close> matches in a \<open>str\<close> pattern.
\<close>

definition py_isspace :: "char \<Rightarrow> bool" where
  "py_isspace c =
     (let n = (of_char c :: nat)
      in (9 \<le> n \<and> n \<le> 13) \<or> (28 \<le> n \<and> n \<le> 32) \<or> n = 133 \<or> n = 160)"

text \<open>\<open>s.strip(chars)\<close>: drop the characters of a set from both ends.\<close>

definition py_strip_by :: "(char \<Rightarrow> bool) \<Rightarrow> string \<Rightarrow> string" where
  "py_strip_by P s = rev (dropWhile P (rev (dropWhile P s)))"

definition py_strip :: "string \<Rightarrow> string" where
  "py_strip s = py_strip_by py_isspace s"

text \<open>\<open>s.split(sep)\<close> for a one-character separator: always at least one part.\<close>

fun py_split :: "char \<Rightarrow> string \<Rightarrow> string list" where
  "py_split sep [] = [[]]"
| "py_split sep (c # cs) =
     (if c = sep then [] # py_split sep cs
      else (case py_split sep cs of
              [] \<Rightarrow> [[c]]
            | p # ps \<Rightarrow> (c # p) # ps))"

text \<open>\<open>sep.join(parts)\<close>.\<close>

fun py_join :: "string \<Rightarrow> string list \<Rightarrow> string" where
  "py_join sep [] = []"
| "py_join sep [p] = p"
| "py_join sep (p # q # ps) = p @ sep @ py_join sep (q # ps)"

text \<open>\<open>s.startswith(t)\<close> and \<open>s.endswith(t)\<close>.\<close>

definition py_startswith :: "string \<Rightarrow> string \<Rightarrow> bool" where
  "py_startswith s t = (take (length t) s = t)"

definition py_endswith :: "string \<Rightarrow> string \<Rightarrow> bool" where
  "py_endswith s t = (length t \<le> length s \<and> drop (length s - length t) s = t)"

text \<open>Truthiness of an optional string: \<open>None\<close> and the empty string are false.\<close>

fun truthy :: "string option \<Rightarrow> bool" where
  "truthy None = False"
| "truthy (Some s) = (s \<noteq> [])"


section \<open>The static taxonomy\<close>

text \<open>
  \<open>CATEGORY_STRUCTURE\<close>: each key with its list of valid subcategories, or \<open>None\<close>
  where the dictionary holds \<open>None\<close>.
\<close>

definition CATEGORY_STRUCTURE :: "(string \<times> string list option) list" where
  "CATEGORY_STRUCTURE =
   [(''Medical'', Some [''Anthony'', ''Hannah'', ''Oliver'', ''Roman'']),
    (''Financial/Bills'', Some [''HOA'', ''Electric'', ''Gas'', ''Water'', ''Internet'',
                                ''Lawn'', ''Storage'', ''Health'', ''Medical'']),
    (''Financial/Cards'', Some [''Chase'', ''Target'', ''Sams Club'']),
    (''Financial/Checks'', None),
    (''Financial/Class Action'', None),
    (''Financial/Home Maintenance'', Some [''HVAC'', ''Pool'']),
    (''Financial/Insurance'', Some [''Auto Home'', ''Health Dental Vision'']),
    (''Financial/Investments'', Some [''401k'', ''Roth IRA'', ''Stocks'']),
    (''Financial/Legal'', None),
    (''Financial/Mortgage'', None),
    (''Financial/Paystubs'', None),
    (''Financial/Receipts'', None),
    (''Financial/Taxes'', None),
    (''Financial/Tolls'', None),
    (''Financial/Misc'', None),
    (''Career'', Some [''Certifications'', ''Resumes'', ''Business Cards'']),
    (''Cars'', Some [''2021 Sequoia'', ''2022 Accord'']),
    (''Kids/School'', None),
    (''Personal/Government Documents'', None),
    (''Personal/Letters'', None),
    (''Personal/Spiritual'', None),
    (''Purchases/Tickets'', None),
    (''Purchases/Product Manuals'', Some [''Appliances'', ''Home'', ''Tools'', ''Toys'',
                                          ''Music'', ''Baby Products'', ''Amazon Basics'']),
    (''Purchases/Other'', None),
    (''Sheet Music'', None),
    (''Recipes'', None),
    (''User Manuals'', None),
    (''Misc'', None)]"

text \<open>\<open>key in CATEGORY_STRUCTURE\<close>.\<close>

definition is_category_key :: "string \<Rightarrow> bool" where
  "is_category_key k = (k \<in> set (map fst CATEGORY_STRUCTURE))"


section \<open>The external assistant\<close>

text \<open>
  \<open>call_chatgpt_shortcut\<close> runs a subprocess with a 120 second timeout. What the
  subprocess does is the environment's choice, given here as the outcome of the run. The
  conversion of the rich-text envelope (\<open>extract_text_from_rtf\<close>, which uses the
  \<open>striprtf\<close> package when it is installed) is a parameter \<open>rtf\<close>.
\<close>

datatype shortcut_run =
    TimeoutExpired
  | RunException
  | Completed int string

fun call_chatgpt_shortcut :: "(string \<Rightarrow> string) \<Rightarrow> shortcut_run \<Rightarrow> string option" where
  "call_chatgpt_shortcut rtf TimeoutExpired = None"
| "call_chatgpt_shortcut rtf RunException = None"
| "call_chatgpt_shortcut rtf (Completed returncode stdout) =
     (if returncode = 0 then Some (py_strip (rtf stdout)) else None)"


section \<open>Parsing the classification response\<close>

text \<open>
  The part of \<open>classify_file_category\<close> after the call of the assistant: \<open>result\<close> is
  what \<open>call_chatgpt_shortcut\<close> returned. The value is the pair (category, subcategory).
\<close>

definition clean_response :: "string \<Rightarrow> string" where
  "clean_response r =
     py_strip_by (\<lambda>c. c = CHR 0x27) (py_strip_by (\<lambda>c. c = CHR 0x22) (py_strip r))"

definition parse_classification :: "string option \<Rightarrow> string option \<times> string option" where
  "parse_classification result =
     (case result of
        None \<Rightarrow> (None, None)
      | Some raw \<Rightarrow>
          if raw = [] then (None, None)
          else
            let r = clean_response raw;
                parts = py_split CHR ''/'' r
            in (case parts of
                  [] \<Rightarrow> (Some r, None)
                | [p0] \<Rightarrow> (Some p0, None)
                | [p0, p1] \<Rightarrow>
                    (let potential_category = p0 @ ''/'' @ p1
                     in if is_category_key potential_category
                        then (Some potential_category, None)
                        else (Some p0, Some p1))
                | p0 # p1 # rest \<Rightarrow>
                    (let potential_category = p0 @ ''/'' @ p1
                     in if is_category_key potential_category
                        then (Some potential_category, Some (py_join ''/'' rest))
                        else (Some p0, Some (py_join ''/'' (p1 # rest))))))"

definition classify_file_category ::
  "(string \<Rightarrow> string) \<Rightarrow> shortcut_run \<Rightarrow> string option \<times> string option" where
  "classify_file_category rtf run = parse_classification (call_chatgpt_shortcut rtf run)"

section \<open>Paths\<close>

text \<open>
  A \<open>pathlib\<close> path is the list of its parts, the root \<open>/\<close> being the first part of
  an absolute path. Joining a segment that starts with a slash replaces the path; other
  segments are cut at the slashes, and empty parts and \<open>.\<close> are dropped.
\<close>

type_synonym path = "string list"

definition path_parts :: "string \<Rightarrow> string list" where
  "path_parts seg = filter (\<lambda>p. p \<noteq> [] \<and> p \<noteq> ''.'') (py_split CHR ''/'' seg)"

definition path_of :: "string \<Rightarrow> path" where
  "path_of seg =
     (if py_startswith seg ''/''
      then (if py_startswith seg ''//'' \<and> \<not> py_startswith seg ''///'' then ''//'' else ''/'')
           # path_parts seg
      else path_parts seg)"

definition pjoin :: "path \<Rightarrow> string \<Rightarrow> path" where
  "pjoin p seg = (if py_startswith seg ''/'' then path_of seg else p @ path_parts seg)"

text \<open>\<open>p.name\<close>: the last part, empty for the root and for the empty path.\<close>

definition path_name :: "path \<Rightarrow> string" where
  "path_name p =
     (case p of
        [] \<Rightarrow> []
      | [q] \<Rightarrow> (if py_startswith q ''/'' then [] else q)
      | _ \<Rightarrow> last p)"

text \<open>\<open>p.parent\<close>.\<close>

definition path_parent :: "path \<Rightarrow> path" where
  "path_parent p =
     (case p of
        [] \<Rightarrow> []
      | [q] \<Rightarrow> (if py_startswith q ''/'' then [q] else [])
      | _ \<Rightarrow> butlast p)"

text \<open>\<open>str(p)\<close>.\<close>

definition path_str :: "path \<Rightarrow> string" where
  "path_str p =
     (case p of
        [] \<Rightarrow> ''.''
      | q # qs \<Rightarrow> (if py_startswith q ''/'' then q @ py_join ''/'' qs else py_join ''/'' p))"


section \<open>Destination resolution\<close>

definition DOCUMENTS_BASE_PATH :: path where
  "DOCUMENTS_BASE_PATH =
     [''/'', ''Users'', ''anthonywheeler'', ''Library'', ''Mobile Documents'',
      ''com~apple~CloudDocs'', ''Documents'']"

text \<open>\<open>d.get(k, k)\<close> on a dictionary given as an association list.\<close>

definition get_or_self :: "(string \<times> string) list \<Rightarrow> string \<Rightarrow> string" where
  "get_or_self d k = (case map_of d k of None \<Rightarrow> k | Some v \<Rightarrow> v)"

definition folder_name_map :: "(string \<times> string) list" where
  "folder_name_map =
     [(''Bills'', ''Bills''), (''Cards'', ''Cards''), (''Checks'', ''Checks''),
      (''Class Action'', ''Class Action''), (''Home Maintenance'', ''Home Maintenance''),
      (''Insurance'', ''Insurance''), (''Investments'', ''Investments''),
      (''Legal'', ''Legal''), (''Mortgage'', ''Mortgage''), (''Paystubs'', ''Paystubs''),
      (''Receipts'', ''Receipts''), (''Taxes'', ''Taxes''), (''Tolls'', ''Tolls''),
      (''Misc'', ''Misc.'')]"

definition subcat_folder_map :: "(string \<times> string) list" where
  "subcat_folder_map =
     [(''Sams Club'', [CHR ''S'', CHR ''a'', CHR ''m'', CHR 0x27, CHR ''s'',
                       CHR '' '', CHR ''C'', CHR ''l'', CHR ''u'', CHR ''b'']),
      (''Auto Home'', ''Encompass:Safeco''),
      (''Health Dental Vision'', ''Health:Dental:Vision'')]"

text \<open>
  \<open>path / subcategory\<close> under \<open>if subcategory:\<close>.
\<close>

definition with_subcategory :: "path \<Rightarrow> string option \<Rightarrow> path" where
  "with_subcategory p subcategory =
     (case subcategory of
        None \<Rightarrow> p
      | Some s \<Rightarrow> (if s = [] then p else pjoin p s))"

text \<open>
  \<open>category_parts[1]\<close>. It is read only where the category starts with a family name and
  a slash, so that there are at least two parts.
\<close>

definition part1 :: "string list \<Rightarrow> string" where
  "part1 category_parts = category_parts ! 1"

definition get_folder_path_for_category :: "string \<Rightarrow> string option \<Rightarrow> path" where
  "get_folder_path_for_category category subcategory =
     (let base = DOCUMENTS_BASE_PATH;
          category_parts = py_split CHR ''/'' category
      in if category = ''Medical'' then
           with_subcategory (pjoin base ''Medical'') subcategory
         else if py_startswith category ''Financial/'' then
           (let subcat_name = part1 category_parts;
                folder_name = get_or_self folder_name_map subcat_name;
                p = pjoin (pjoin base ''Financial'') folder_name
            in (case subcategory of
                  None \<Rightarrow> p
                | Some s \<Rightarrow> (if s = [] then p else pjoin p (get_or_self subcat_folder_map s))))
         else if category = ''Career'' then
           with_subcategory (pjoin base ''Career'') subcategory
         else if category = ''Cars'' then
           with_subcategory (pjoin base ''Cars'') subcategory
         else if py_startswith category ''Kids/'' then
           pjoin (pjoin base ''Kids'') (part1 category_parts)
         else if py_startswith category ''Personal/'' then
           pjoin (pjoin base ''Personal'') (part1 category_parts)
         else if py_startswith category ''Purchases/'' then
           with_subcategory (pjoin (pjoin base ''Purchases'') (part1 category_parts)) subcategory
         else if category = ''Sheet Music'' then pjoin base ''Sheet Music''
         else if category = ''Recipes'' then pjoin base ''Recipes''
         else if category = ''User Manuals'' then pjoin base ''User Manuals''
         else if category = ''Misc'' then pjoin base ''Misc. ''
         else pjoin base ''Misc. '')"

section \<open>The file system and the audit log\<close>

text \<open>
  The state the filing engine works on: the regular files (a document is identified by a
  number), the directories, and the audit log \<open>file_move_log.csv\<close>. The log is read and
  written through the \<open>csv\<close> module only, so it is kept as the list of its rows, \<open>None\<close>
  while the file does not exist; its path is not the path of a document. The empty path is
  the working directory.
\<close>

record world =
  files :: "path \<rightharpoonup> nat"
  dirs :: "path set"
  audit :: "string list list option"

definition path_exists :: "world \<Rightarrow> path \<Rightarrow> bool" where
  "path_exists w p = (files w p \<noteq> None \<or> p \<in> dirs w \<or> p = [])"

definition is_dir :: "world \<Rightarrow> path \<Rightarrow> bool" where
  "is_dir w p = (p \<in> dirs w \<or> p = [])"

text \<open>
  \<open>d.mkdir(parents=True, exist_ok=True)\<close>: raises (the value \<open>None\<close>) when a regular file
  sits on the path, and otherwise makes every missing directory of the path.
\<close>

definition mkdir_parents :: "world \<Rightarrow> path \<Rightarrow> world option" where
  "mkdir_parents w d =
     (let qs = filter (\<lambda>q. q \<noteq> []) (prefixes d)
      in if list_ex (\<lambda>q. files w q \<noteq> None) qs then None
         else Some (w\<lparr>dirs := dirs w \<union> set qs\<rparr>))"

text \<open>
  \<open>src.rename(dst)\<close> for a document \<open>src\<close>: renaming a path to itself changes nothing;
  a missing source, a directory as target and a target in a missing directory raise
  (the value \<open>None\<close>); an existing regular file at the target is replaced. Renaming a
  directory is outside the model and is given as a failure.
\<close>

definition rename_file :: "world \<Rightarrow> path \<Rightarrow> path \<Rightarrow> world option" where
  "rename_file w src dst =
     (if src = dst \<and> path_exists w src then Some w
      else (case files w src of
              None \<Rightarrow> None
            | Some doc \<Rightarrow>
                if dst \<in> dirs w \<or> \<not> is_dir w (path_parent dst) then None
                else Some (w\<lparr>files := ((files w)(src := None))(dst \<mapsto> doc)\<rparr>)))"

definition LOG_HEADER :: "string list" where
  "LOG_HEADER = [''DateTime'', ''Old Filename'', ''New Filename'', ''Destination'']"

text \<open>
  \<open>log_file_move\<close>; \<open>timestamp\<close> is the formatted value of \<open>datetime.now()\<close>. The
  function has no handler of its own, and the operations on the log file can raise. What
  they do is the environment's choice: everything goes through, or reading the existing
  log raises (a log that is not UTF-8, say), or opening the log for writing raises. In the
  last two cases the function raises (the value \<open>None\<close>) and the log is as it was.
\<close>

datatype log_io = Log_io_ok | Log_read_raises | Log_write_raises

definition existing_entries :: "string list list option \<Rightarrow> string list list" where
  "existing_entries log =
     (case log of
        None \<Rightarrow> []
      | Some [] \<Rightarrow> []
      | Some (header # rest) \<Rightarrow> (if header \<noteq> LOG_HEADER then [header] else []) @ rest)"

definition log_file_move ::
  "world \<Rightarrow> log_io \<Rightarrow> string \<Rightarrow> string \<Rightarrow> string \<Rightarrow> path \<Rightarrow> world option" where
  "log_file_move w io timestamp old_filename new_filename destination =
     (if audit w \<noteq> None \<and> io = Log_read_raises then None
      else if io = Log_write_raises then None
      else
        let new_entry = [timestamp, old_filename, new_filename, path_str destination]
        in Some (w\<lparr>audit := Some (LOG_HEADER # new_entry # existing_entries (audit w))\<rparr>))"

text \<open>
  \<open>move_file_to_destination\<close>: the value is the returned boolean and the state left
  behind. Every exception is caught inside the function and gives \<open>False\<close>; that of
  \<open>log_file_move\<close> comes after the rename, so that the file is moved then and the
  function still returns \<open>False\<close>.
\<close>

definition move_file_to_destination ::
  "world \<Rightarrow> log_io \<Rightarrow> string \<Rightarrow> path \<Rightarrow> path option \<Rightarrow> string option \<Rightarrow> bool \<times> world" where
  "move_file_to_destination w io timestamp source_file dest_folder original_filename =
     (case dest_folder of
        None \<Rightarrow> (False, w)
      | Some d \<Rightarrow>
          (case mkdir_parents w d of
             None \<Rightarrow> (False, w)
           | Some w1 \<Rightarrow>
               (let dest_file = pjoin d (path_name source_file)
                in if path_exists w1 dest_file \<and> dest_file \<noteq> source_file then (False, w1)
                   else
                     (let old_filename =
                            (case original_filename of
                               None \<Rightarrow> path_name source_file
                             | Some n \<Rightarrow> (if n = [] then path_name source_file else n));
                          new_filename = path_name source_file
                      in (case rename_file w1 source_file dest_file of
                            None \<Rightarrow> (False, w1)
                          | Some w2 \<Rightarrow>
                              (case log_file_move w2 io timestamp old_filename new_filename d of
                                 None \<Rightarrow> (False, w2)
                               | Some w3 \<Rightarrow> (True, w3)))))))"

section \<open>The availability resolver\<close>

text \<open>
  \<open>ensure_file_downloaded\<close> returns \<open>True\<close>, \<open>False\<close> or the path of the scratch copy.
  What the storage provider does is the environment's choice: the outcome of each copy
  attempt (the size of the scratch copy, or \<open>None\<close> for an \<open>IOError\<close>/\<open>OSError\<close>), whether
  the original can be opened and read afterwards, whether each \<open>unlink\<close> of the scratch
  copy succeeds, and the outcome of each direct read. The scratch file is the size it has,
  \<open>None\<close> while it does not exist. The metadata probe and the \<open>brctl\<close> request only
  write to the debug log.
\<close>

datatype download_result = DL_True | DL_False | DL_Temp

record download_env =
  copy_result :: "nat \<Rightarrow> nat option"
  original_readable :: bool
  unlink_after_read_ok :: bool
  unlink_empty_ok :: bool
  unlink_on_error_ok :: bool
  direct_read :: "nat \<Rightarrow> bool"
  original_size :: "nat option"

datatype 'a loop_result = Broke 'a | Raised | Fell_through

text \<open>
  The copy loop, \<open>for attempt in range(max_copy_retries)\<close>: \<open>remaining\<close> counts the
  attempts left, so that \<open>attempt < max_copy_retries - 1\<close> is \<open>0 < remaining - 1\<close>.
\<close>

fun copy_loop :: "(nat \<Rightarrow> nat option) \<Rightarrow> nat \<Rightarrow> nat \<Rightarrow> nat loop_result" where
  "copy_loop f attempt 0 = Fell_through"
| "copy_loop f attempt (Suc remaining) =
     (case f attempt of
        Some sz \<Rightarrow> Broke sz
      | None \<Rightarrow> (if 0 < remaining then copy_loop f (Suc attempt) remaining else Raised))"

fun read_loop :: "(nat \<Rightarrow> bool) \<Rightarrow> nat \<Rightarrow> nat \<Rightarrow> unit loop_result" where
  "read_loop f attempt 0 = Fell_through"
| "read_loop f attempt (Suc remaining) =
     (if f attempt then Broke ()
      else if 0 < remaining then read_loop f (Suc attempt) remaining else Raised)"

text \<open>Method 3: direct reads of the original.\<close>

definition direct_read_method :: "download_env \<Rightarrow> download_result" where
  "direct_read_method env =
     (case read_loop (direct_read env) 0 5 of
        Broke _ \<Rightarrow> DL_True
      | Raised \<Rightarrow> DL_False
      | Fell_through \<Rightarrow>
          (case original_size env of
             None \<Rightarrow> DL_False
           | Some n \<Rightarrow> (if 0 < n then DL_True else DL_False)))"

text \<open>The handler of the copy method: a best-effort removal of the scratch copy.\<close>

definition cleanup_on_error :: "download_env \<Rightarrow> nat option \<Rightarrow> nat option" where
  "cleanup_on_error env scratch =
     (if scratch \<noteq> None \<and> unlink_on_error_ok env then None else scratch)"

text \<open>
  The verification of the scratch copy after the copy loop. The read of the original and
  the removal of the scratch copy stand in one \<open>try\<close> block, whose handler returns the
  scratch path.
\<close>

definition verify_temp :: "download_env \<Rightarrow> nat option \<Rightarrow> download_result \<times> nat option" where
  "verify_temp env scratch =
     (case scratch of
        Some sz \<Rightarrow>
          if 0 < sz then
            (if original_readable env then
               (if unlink_after_read_ok env then (DL_True, None) else (DL_Temp, scratch))
             else (DL_Temp, scratch))
          else
            (if unlink_empty_ok env then (DL_False, None)
             else (direct_read_method env, cleanup_on_error env scratch))
      | None \<Rightarrow> (DL_False, None))"

definition ensure_file_downloaded ::
  "download_env \<Rightarrow> nat option \<Rightarrow> download_result \<times> nat option" where
  "ensure_file_downloaded env scratch =
     (case copy_loop (copy_result env) 0 5 of
        Broke sz \<Rightarrow> verify_temp env (Some sz)
      | Fell_through \<Rightarrow> verify_temp env scratch
      | Raised \<Rightarrow> (direct_read_method env, cleanup_on_error env scratch))"


section \<open>The text extractor\<close>

text \<open>
  What the PDF and OCR libraries do is the environment's choice. A page is the text its
  extraction returns, or \<open>None\<close> when the extraction raises. \<open>pypdf2_pages\<close> are the pages
  the first attempt reaches and \<open>pypdf2_aborts\<close> says whether that attempt then raises
  outside the per-page handler (opening the file included); \<open>pypdf2_retry_pages\<close> are the
  pages the retry reaches.
\<close>

record extract_env =
  download :: download_env
  pypdf2_available :: bool
  pypdf2_pages :: "string option list"
  pypdf2_aborts :: bool
  pypdf2_retry_pages :: "string option list"
  pdfplumber_available :: bool
  pdfplumber_opens :: bool
  pdfplumber_pages :: "string option list"
  ocr_available :: bool
  ocr_converts :: bool
  ocr_pages :: "string option list"
  temp_unlink_ok :: bool

text \<open>Accumulation with a handler around each page: a page that raises is skipped.\<close>

fun add_pages_lenient :: "string \<Rightarrow> string option list \<Rightarrow> string" where
  "add_pages_lenient text [] = text"
| "add_pages_lenient text (None # ps) = add_pages_lenient text ps"
| "add_pages_lenient text (Some t # ps) =
     add_pages_lenient (if t \<noteq> [] then text @ t @ [CHR 0x0A] else text) ps"

text \<open>
  Accumulation without a handler: the first page that raises ends the loop. The value is
  the text accumulated so far and whether the loop raised.
\<close>

fun add_pages_strict :: "string \<Rightarrow> string option list \<Rightarrow> string \<times> bool" where
  "add_pages_strict text [] = (text, False)"
| "add_pages_strict text (None # ps) = (text, True)"
| "add_pages_strict text (Some t # ps) =
     add_pages_strict (if t \<noteq> [] then text @ t @ [CHR 0x0A] else text) ps"

text \<open>Stage A (PyPDF2): the value of \<open>text\<close> after the first \<open>try\<close> statement.\<close>

definition stage_a :: "extract_env \<Rightarrow> string" where
  "stage_a env =
     (if \<not> pypdf2_available env then []
      else
        let text = add_pages_lenient [] (pypdf2_pages env)
        in if pypdf2_aborts env then fst (add_pages_strict text (pypdf2_retry_pages env))
           else text)"

text \<open>Stage B (pdfplumber): \<open>text\<close> is reset once the file is open.\<close>

definition stage_b :: "extract_env \<Rightarrow> string \<Rightarrow> string" where
  "stage_b env text =
     (if \<not> pdfplumber_available env then text
      else if \<not> pdfplumber_opens env then text
      else fst (add_pages_strict [] (pdfplumber_pages env)))"

text \<open>
  Stage C (OCR): \<open>None\<close> where the function returns the empty string at once, from the
  handler of \<open>ImportError\<close> or of any other exception.
\<close>

definition stage_c :: "extract_env \<Rightarrow> string option" where
  "stage_c env =
     (if \<not> ocr_available env then None
      else if \<not> ocr_converts env then None
      else (case add_pages_strict [] (ocr_pages env) of
              (text, True) \<Rightarrow> None
            | (text, False) \<Rightarrow> Some text))"

datatype stage_event = Stage_A | Stage_B | Stage_C | Temp_unlink

record extraction =
  text_of :: string
  scratch_of :: "nat option"
  trace_of :: "stage_event list"

text \<open>The end of the function: cleanup of the scratch copy, then the trimmed text.\<close>

definition finish_extraction ::
  "extract_env \<Rightarrow> bool \<Rightarrow> nat option \<Rightarrow> string \<Rightarrow> stage_event list \<Rightarrow> extraction" where
  "finish_extraction env use_temp scratch text trace =
     (if use_temp \<and> scratch \<noteq> None then
        \<lparr>text_of = py_strip text,
         scratch_of = (if temp_unlink_ok env then None else scratch),
         trace_of = trace @ [Temp_unlink]\<rparr>
      else \<lparr>text_of = py_strip text, scratch_of = scratch, trace_of = trace\<rparr>)"

definition extract_text_from_pdf :: "extract_env \<Rightarrow> nat option \<Rightarrow> extraction" where
  "extract_text_from_pdf env scratch0 =
     (case ensure_file_downloaded (download env) scratch0 of
        (DL_False, scratch) \<Rightarrow> \<lparr>text_of = [], scratch_of = scratch, trace_of = []\<rparr>
      | (download_result, scratch) \<Rightarrow>
          (let use_temp = (download_result = DL_Temp);
               text_a = stage_a env;
               run_b = (length (py_strip text_a) < 50);
               text_b = (if run_b then stage_b env text_a else text_a);
               run_c = (length (py_strip text_b) < 50);
               trace = [Stage_A] @ (if run_b then [Stage_B] else [])
                                 @ (if run_c then [Stage_C] else [])
           in if run_c then
                (case stage_c env of
                   None \<Rightarrow> \<lparr>text_of = [], scratch_of = scratch, trace_of = trace\<rparr>
                 | Some text_c \<Rightarrow> finish_extraction env use_temp scratch text_c trace)
              else finish_extraction env use_temp scratch text_b trace))"

section \<open>The run driver, one file at a time\<close>

text \<open>
  The manual-override pattern \<open>^\d{4}-\d{2}-\d{2}\s+-\s+.+\.pdf$\<close> under \<open>re.match\<close>.
  On the modelled code points \<open>\d\<close> is a digit \<open>0\<close>-\<open>9\<close>, the dot matches everything but
  the line feed, and \<open>$\<close> matches at the end and before a line feed that ends the string.
  The first run of whitespace has to be followed by the hyphen, so it is the maximal run;
  the second may stop anywhere, as the dot matches whitespace too.
\<close>

definition py_isdigit :: "char \<Rightarrow> bool" where
  "py_isdigit c = (let n = (of_char c :: nat) in 48 \<le> n \<and> n \<le> 57)"

definition description_pdf :: "string \<Rightarrow> bool" where
  "description_pdf v =
     (4 < length v \<and> py_endswith v ''.pdf''
      \<and> CHR 0x0A \<notin> set (take (length v - 4) v))"

definition description_pdf_end :: "string \<Rightarrow> bool" where
  "description_pdf_end u =
     (description_pdf u \<or> (u \<noteq> [] \<and> last u = CHR 0x0A \<and> description_pdf (butlast u)))"

definition matches_dated_name :: "string \<Rightarrow> bool" where
  "matches_dated_name name =
     (case name of
        d1 # d2 # d3 # d4 # h1 # d5 # d6 # h2 # d7 # d8 # rest \<Rightarrow>
          list_all py_isdigit [d1, d2, d3, d4, d5, d6, d7, d8]
          \<and> h1 = CHR ''-'' \<and> h2 = CHR ''-''
          \<and> takeWhile py_isspace rest \<noteq> []
          \<and> (case dropWhile py_isspace rest of
                [] \<Rightarrow> False
              | c # t \<Rightarrow>
                  c = CHR ''-''
                  \<and> list_ex (\<lambda>k. description_pdf_end (drop k t))
                       [1 ..< Suc (length (takeWhile py_isspace t))])
      | _ \<Rightarrow> False)"

text \<open>
  What the environment does for one file: the libraries and the storage provider during
  extraction, the two runs of the assistant (classification, then the filename), the
  conversion of the assistant's envelope, and the clock and the log file at the move.
\<close>

record file_env =
  extraction_env :: extract_env
  rtf_to_text :: "string \<Rightarrow> string"
  classify_run :: shortcut_run
  filename_run :: shortcut_run
  audit_io :: log_io
  move_timestamp :: string

datatype event =
    Classify_called
  | Filename_requested
  | Renamed path path
  | Move_called path path string

record step_result =
  world_of :: world
  events_of :: "event list"

text \<open>\<open>generate_filename\<close> returns what the assistant's run gives.\<close>

definition generate_filename :: "(string \<Rightarrow> string) \<Rightarrow> shortcut_run \<Rightarrow> string option" where
  "generate_filename rtf run = call_chatgpt_shortcut rtf run"

text \<open>The destination folder after classification: \<open>None\<close> if there is no category.\<close>

definition resolve_dest_folder :: "string option \<times> string option \<Rightarrow> path option" where
  "resolve_dest_folder cls =
     (case cls of
        (None, subcategory) \<Rightarrow> None
      | (Some category, subcategory) \<Rightarrow>
          (if category = [] then None
           else Some (get_folder_path_for_category category subcategory)))"

text \<open>The branch of a file whose name already has the dated form.\<close>

definition process_override :: "file_env \<Rightarrow> world \<Rightarrow> path \<Rightarrow> step_result" where
  "process_override env w pdf_file =
     (let cls = classify_file_category (rtf_to_text env) (classify_run env)
      in (case resolve_dest_folder cls of
            Some dest_folder \<Rightarrow>
              \<lparr>world_of = snd (move_file_to_destination w (audit_io env) (move_timestamp env)
                                  pdf_file (Some dest_folder) (Some (path_name pdf_file))),
               events_of = [Classify_called,
                            Move_called pdf_file dest_folder (path_name pdf_file)]\<rparr>
          | None \<Rightarrow> \<lparr>world_of = w, events_of = [Classify_called]\<rparr>))"

text \<open>The branch of every other file: classify, ask for a name, rename, move.\<close>

definition process_rename :: "file_env \<Rightarrow> world \<Rightarrow> path \<Rightarrow> step_result" where
  "process_rename env w pdf_file =
     (let cls = classify_file_category (rtf_to_text env) (classify_run env);
          dest_folder = resolve_dest_folder cls;
          suggested = generate_filename (rtf_to_text env) (filename_run env)
      in if \<not> truthy suggested then
           \<lparr>world_of = w, events_of = [Classify_called, Filename_requested]\<rparr>
         else
           (let cleaned = clean_response (case suggested of Some n \<Rightarrow> n | None \<Rightarrow> []);
                suggested_filename =
                  (if \<not> py_endswith cleaned ''.pdf'' then cleaned @ ''.pdf'' else cleaned);
                original_filename = path_name pdf_file;
                new_file_path = pjoin (path_parent pdf_file) suggested_filename;
                renamed =
                  (if path_name pdf_file = suggested_filename then None
                   else if path_exists w new_file_path \<and> new_file_path \<noteq> pdf_file then None
                   else rename_file w pdf_file new_file_path);
                w1 = (case renamed of Some w' \<Rightarrow> w' | None \<Rightarrow> w);
                current_file_path = (case renamed of Some w' \<Rightarrow> new_file_path | None \<Rightarrow> pdf_file);
                evs1 = [Classify_called, Filename_requested]
                       @ (case renamed of Some w' \<Rightarrow> [Renamed pdf_file new_file_path]
                                        | None \<Rightarrow> [])
            in (case dest_folder of
                  Some d \<Rightarrow>
                    \<lparr>world_of = snd (move_file_to_destination w1 (audit_io env)
                                        (move_timestamp env) current_file_path (Some d)
                                        (Some original_filename)),
                     events_of = evs1 @ [Move_called current_file_path d original_filename]\<rparr>
                | None \<Rightarrow> \<lparr>world_of = w1, events_of = evs1\<rparr>)))"

text \<open>
  The body of the loop of \<open>main\<close> for one file. A file without extracted text is skipped
  before anything else.
\<close>

definition process_pdf :: "file_env \<Rightarrow> nat option \<Rightarrow> world \<Rightarrow> path \<Rightarrow> step_result" where
  "process_pdf env scratch0 w pdf_file =
     (let file_contents = text_of (extract_text_from_pdf (extraction_env env) scratch0)
      in if file_contents = [] then \<lparr>world_of = w, events_of = []\<rparr>
         else if matches_dated_name (path_name pdf_file) then process_override env w pdf_file
         else process_rename env w pdf_file)"

section \<open>Sequences of appends and sample environments\<close>

text \<open>
  A sequence of calls of \<open>log_file_move\<close>, oldest first; each call is given by what the
  log file does at that call, its timestamp, the two filenames and the destination. A call
  that raises ends the sequence (the value \<open>None\<close>).
\<close>

type_synonym log_call = "log_io \<times> string \<times> string \<times> string \<times> path"

definition entry_row :: "log_call \<Rightarrow> string list" where
  "entry_row c = (case c of (io, timestamp, old_filename, new_filename, destination) \<Rightarrow>
                    [timestamp, old_filename, new_filename, path_str destination])"

fun log_file_moves :: "world \<Rightarrow> log_call list \<Rightarrow> world option" where
  "log_file_moves w [] = Some w"
| "log_file_moves w ((io, timestamp, old_filename, new_filename, destination) # cs) =
     (case log_file_move w io timestamp old_filename new_filename destination of
        None \<Rightarrow> None
      | Some w' \<Rightarrow> log_file_moves w' cs)"

text \<open>
  Sample environments for concrete runs: a storage provider on which every operation
  succeeds, a document with one page of text, and an assistant that classifies the document
  as \<open>Misc\<close> and proposes a name.
\<close>

definition sample_download :: download_env where
  "sample_download =
     \<lparr>copy_result = (\<lambda>attempt. Some 10), original_readable = True,
      unlink_after_read_ok = True, unlink_empty_ok = True, unlink_on_error_ok = True,
      direct_read = (\<lambda>attempt. True), original_size = Some 10\<rparr>"

definition sample_extract :: extract_env where
  "sample_extract =
     \<lparr>download = sample_download,
      pypdf2_available = True,
      pypdf2_pages = [Some ''Electric bill for January 2025, account 12345, amount due 80 dollars''],
      pypdf2_aborts = False,
      pypdf2_retry_pages = [],
      pdfplumber_available = True, pdfplumber_opens = True, pdfplumber_pages = [],
      ocr_available = True, ocr_converts = True, ocr_pages = [],
      temp_unlink_ok = True\<rparr>"

definition sample_file_env :: file_env where
  "sample_file_env =
     \<lparr>extraction_env = sample_extract,
      rtf_to_text = (\<lambda>s. s),
      classify_run = Completed 0 ''Misc'',
      filename_run = Completed 0 ''2025-01-15 - Electric Bill January'',
      audit_io = Log_io_ok,
      move_timestamp = ''2025-01-20 10:00:00''\<rparr>"

definition sample_world :: world where
  "sample_world =
     \<lparr>files = [[''inbox'', ''scan001.pdf''] \<mapsto> 1, [''inbox'', ''2025-01-01 - x.pdf''] \<mapsto> 2],
      dirs = {[''inbox'']},
      audit = None\<rparr>"


text \<open>
  A file name as \<open>pathlib\<close> gives it for a file: not empty, not \<open>.\<close>, and without a
  slash. The directories that \<open>mkdir\<close> with \<open>parents=True\<close> makes sure of are the non-empty
  prefixes of the path.
\<close>

definition proper_name :: "string \<Rightarrow> bool" where
  "proper_name n = (n \<noteq> [] \<and> n \<noteq> ''.'' \<and> CHR ''/'' \<notin> set n)"


text \<open>
  Two documents of the same name in two folders, for a concrete collision; and the same
  with a third file of that name already in the destination folder.
\<close>

definition collision_world :: world where
  "collision_world =
     \<lparr>files = [[''inbox'', ''a.pdf''] \<mapsto> 1, [''tmp'', ''a.pdf''] \<mapsto> 2],
      dirs = {[''inbox''], [''tmp'']},
      audit = None\<rparr>"



section \<open>Splitting and joining\<close>

lemma py_split_not_Nil: "py_split sep s \<noteq> []"
  by (induction s) (auto split: list.splits)

lemma py_split_no_sep: "sep \<notin> set s \<Longrightarrow> py_split sep s = [s]"
  by (induction s) auto

lemma py_split_first: "sep \<notin> set p \<Longrightarrow> py_split sep (p @ sep # t) = p # py_split sep t"
  by (induction p) auto

lemma py_join_split: "py_join [sep] (py_split sep s) = s"
proof (induction s)
  case Nil
  show ?case by simp
next
  case (Cons c cs)
  obtain p ps where parts: "py_split sep cs = p # ps"
    using py_split_not_Nil [of sep cs] by (cases "py_split sep cs") auto
  show ?case
  proof (cases "c = sep")
    case True
    with Cons parts show ?thesis by auto
  next
    case False
    with Cons parts show ?thesis by (cases ps) auto
  qed
qed

lemma py_join_Cons: "ps \<noteq> [] \<Longrightarrow> py_join sep (p # ps) = p @ sep @ py_join sep ps"
  by (cases ps) auto


section \<open>The classification parser\<close>

lemma parse_one_part:
  assumes "r \<noteq> []" and "CHR ''/'' \<notin> set (clean_response r)"
  shows "parse_classification (Some r) = (Some (clean_response r), None)"
  using assms by (simp add: parse_classification_def py_split_no_sep)

lemma parse_two_parts:
  assumes "r \<noteq> []" and "clean_response r = p0 @ ''/'' @ p1"
    and "CHR ''/'' \<notin> set p0" and "CHR ''/'' \<notin> set p1"
  shows "parse_classification (Some r) =
           (if is_category_key (p0 @ ''/'' @ p1) then (Some (p0 @ ''/'' @ p1), None)
            else (Some p0, Some p1))"
  using assms by (simp add: parse_classification_def py_split_first py_split_no_sep)

lemma parse_known_prefix:
  assumes "r \<noteq> []" and "clean_response r = p0 @ ''/'' @ p1 @ ''/'' @ rest"
    and "CHR ''/'' \<notin> set p0" and "CHR ''/'' \<notin> set p1"
    and "is_category_key (p0 @ ''/'' @ p1)"
  shows "parse_classification (Some r) = (Some (p0 @ ''/'' @ p1), Some rest)"
proof -
  obtain q qs where parts: "py_split CHR ''/'' rest = q # qs"
    using py_split_not_Nil [of "CHR ''/''" rest] by (cases "py_split CHR ''/'' rest") auto
  have "py_join ''/'' (q # qs) = rest"
    using py_join_split [of "CHR ''/''" rest] parts by simp
  with assms parts show ?thesis
    by (simp add: parse_classification_def py_split_first)
qed

text \<open>
  C1. The parser applies the longest-known-prefix rule to every non-empty response,
  read after the whitespace and the quotes around it are removed. The response
  \<open>Financial/Bills/Electric\<close> gives the category \<open>Financial/Bills\<close> and the subcategory
  \<open>Electric\<close>, and \<open>Misc\<close> gives the category \<open>Misc\<close> and no subcategory. In general, a
  response without a slash is the category, with no subcategory; a response
  \<open>Part0/Part1\<close> of two segments is returned whole as the category, with no subcategory,
  exactly when it is a key of the taxonomy, and otherwise \<open>Part0\<close> is the category and
  \<open>Part1\<close> the subcategory; and when the first two segments of a longer response form a
  key, that key is the category and the rest of the response is the subcategory.
\<close>

theorem C1_longest_known_prefix:
  "parse_classification (Some ''Financial/Bills/Electric'')
     = (Some ''Financial/Bills'', Some ''Electric'')
   \<and> parse_classification (Some ''Misc'') = (Some ''Misc'', None)
   \<and> (\<forall>r. r \<noteq> [] \<and> CHR ''/'' \<notin> set (clean_response r)
          \<longrightarrow> parse_classification (Some r) = (Some (clean_response r), None))
   \<and> (\<forall>r p0 p1.
          r \<noteq> [] \<and> clean_response r = p0 @ ''/'' @ p1
          \<and> CHR ''/'' \<notin> set p0 \<and> CHR ''/'' \<notin> set p1
          \<longrightarrow> parse_classification (Some r) =
                (if is_category_key (p0 @ ''/'' @ p1) then (Some (p0 @ ''/'' @ p1), None)
                 else (Some p0, Some p1)))
   \<and> (\<forall>r p0 p1 rest.
          r \<noteq> [] \<and> clean_response r = p0 @ ''/'' @ p1 @ ''/'' @ rest
          \<and> CHR ''/'' \<notin> set p0 \<and> CHR ''/'' \<notin> set p1
          \<and> is_category_key (p0 @ ''/'' @ p1)
          \<longrightarrow> parse_classification (Some r) = (Some (p0 @ ''/'' @ p1), Some rest))"
proof (intro conjI allI impI)
  show "parse_classification (Some ''Financial/Bills/Electric'')
          = (Some ''Financial/Bills'', Some ''Electric'')"
    by (simp add: parse_classification_def clean_response_def py_strip_def py_strip_by_def
        py_isspace_def is_category_key_def CATEGORY_STRUCTURE_def)
  show "parse_classification (Some ''Misc'') = (Some ''Misc'', None)"
    by (simp add: parse_classification_def clean_response_def py_strip_def py_strip_by_def
        py_isspace_def)
next
  fix r
  assume "r \<noteq> [] \<and> CHR ''/'' \<notin> set (clean_response r)"
  then show "parse_classification (Some r) = (Some (clean_response r), None)"
    by (simp add: parse_one_part)
next
  fix r p0 p1
  assume "r \<noteq> [] \<and> clean_response r = p0 @ ''/'' @ p1
          \<and> CHR ''/'' \<notin> set p0 \<and> CHR ''/'' \<notin> set p1"
  then show "parse_classification (Some r) =
                (if is_category_key (p0 @ ''/'' @ p1) then (Some (p0 @ ''/'' @ p1), None)
                 else (Some p0, Some p1))"
    using parse_two_parts [of r p0 p1] by blast
next
  fix r p0 p1 rest
  assume "r \<noteq> [] \<and> clean_response r = p0 @ ''/'' @ p1 @ ''/'' @ rest
          \<and> CHR ''/'' \<notin> set p0 \<and> CHR ''/'' \<notin> set p1
          \<and> is_category_key (p0 @ ''/'' @ p1)"
  then show "parse_classification (Some r) = (Some (p0 @ ''/'' @ p1), Some rest)"
    using parse_known_prefix [of r p0 p1 rest] by blast
qed

theorem C1_longest_known_prefix_witness:
  "clean_response '' Medical/Anthony '' = ''Medical'' @ ''/'' @ ''Anthony''
   \<and> \<not> is_category_key (''Medical'' @ ''/'' @ ''Anthony'')
   \<and> parse_classification (Some '' Medical/Anthony '') = (Some ''Medical'', Some ''Anthony'')
   \<and> clean_response ''Financial/Checks'' = ''Financial'' @ ''/'' @ ''Checks''
   \<and> is_category_key (''Financial'' @ ''/'' @ ''Checks'')
   \<and> parse_classification (Some ''Financial/Checks'') = (Some ''Financial/Checks'', None)
   \<and> clean_response ''Purchases/Tickets/2025'' = ''Purchases'' @ ''/'' @ ''Tickets'' @ ''/'' @ ''2025''
   \<and> parse_classification (Some ''Purchases/Tickets/2025'')
       = (Some ''Purchases/Tickets'', Some ''2025'')
   \<and> parse_classification (Some ''Recipes'') = (Some ''Recipes'', None)"
proof -
  have c1: "clean_response '' Medical/Anthony '' = ''Medical'' @ ''/'' @ ''Anthony''"
    by (simp add: clean_response_def py_strip_def py_strip_by_def py_isspace_def)
  have k1: "\<not> is_category_key (''Medical'' @ ''/'' @ ''Anthony'')"
    by (simp add: is_category_key_def CATEGORY_STRUCTURE_def)
  have c2: "clean_response ''Financial/Checks'' = ''Financial'' @ ''/'' @ ''Checks''"
    by (simp add: clean_response_def py_strip_def py_strip_by_def py_isspace_def)
  have k2: "is_category_key (''Financial'' @ ''/'' @ ''Checks'')"
    by (simp add: is_category_key_def CATEGORY_STRUCTURE_def)
  have c3: "clean_response ''Purchases/Tickets/2025''
              = ''Purchases'' @ ''/'' @ ''Tickets'' @ ''/'' @ ''2025''"
    by (simp add: clean_response_def py_strip_def py_strip_by_def py_isspace_def)
  have k3: "is_category_key (''Purchases'' @ ''/'' @ ''Tickets'')"
    by (simp add: is_category_key_def CATEGORY_STRUCTURE_def)
  have c4: "clean_response ''Recipes'' = ''Recipes''"
    by (simp add: clean_response_def py_strip_def py_strip_by_def py_isspace_def)
  note prefix_rule = C1_longest_known_prefix
  from prefix_rule have one: "\<And>r. r \<noteq> [] \<and> CHR ''/'' \<notin> set (clean_response r)
          \<Longrightarrow> parse_classification (Some r) = (Some (clean_response r), None)"
    by blast
  from prefix_rule have two: "\<And>r p0 p1. r \<noteq> [] \<and> clean_response r = p0 @ ''/'' @ p1
          \<and> CHR ''/'' \<notin> set p0 \<and> CHR ''/'' \<notin> set p1
          \<Longrightarrow> parse_classification (Some r) =
                (if is_category_key (p0 @ ''/'' @ p1) then (Some (p0 @ ''/'' @ p1), None)
                 else (Some p0, Some p1))"
    by blast
  from prefix_rule have three: "\<And>r p0 p1 rest.
          r \<noteq> [] \<and> clean_response r = p0 @ ''/'' @ p1 @ ''/'' @ rest
          \<and> CHR ''/'' \<notin> set p0 \<and> CHR ''/'' \<notin> set p1
          \<and> is_category_key (p0 @ ''/'' @ p1)
          \<Longrightarrow> parse_classification (Some r) = (Some (p0 @ ''/'' @ p1), Some rest)"
    by blast
  have r1: "parse_classification (Some '' Medical/Anthony '') = (Some ''Medical'', Some ''Anthony'')"
    using two [of "'' Medical/Anthony ''" "''Medical''" "''Anthony''"] c1 k1 by simp
  have r2: "parse_classification (Some ''Financial/Checks'') = (Some ''Financial/Checks'', None)"
    using two [of "''Financial/Checks''" "''Financial''" "''Checks''"] c2 k2 by simp
  have r3: "parse_classification (Some ''Purchases/Tickets/2025'')
              = (Some ''Purchases/Tickets'', Some ''2025'')"
    using three [of "''Purchases/Tickets/2025''" "''Purchases''" "''Tickets''" "''2025''"] c3 k3
    by simp
  have r4: "parse_classification (Some ''Recipes'') = (Some ''Recipes'', None)"
    using one [of "''Recipes''"] c4 by simp
  from c1 k1 r1 c2 k2 r2 c3 r3 r4 show ?thesis by blast
qed

text \<open>
  C10. When the cleaned response has three or more slash-separated parts and the first two
  parts joined by a slash are not a key of the taxonomy, the parser returns the first part
  alone as the category and all the remaining parts, joined by slashes again, as the
  subcategory; that subcategory is what follows the first slash of the response.
\<close>

theorem C10_unknown_prefix_rejoined:
  assumes "r \<noteq> []"
    and "py_split CHR ''/'' (clean_response r) = p0 # p1 # p2 # others"
    and "\<not> is_category_key (p0 @ ''/'' @ p1)"
  shows "parse_classification (Some r) = (Some p0, Some (py_join ''/'' (p1 # p2 # others)))
         \<and> clean_response r = p0 @ ''/'' @ py_join ''/'' (p1 # p2 # others)"
proof
  from assms show "parse_classification (Some r)
                     = (Some p0, Some (py_join ''/'' (p1 # p2 # others)))"
    by (simp add: parse_classification_def)
  have "py_join ''/'' (p0 # p1 # p2 # others) = clean_response r"
    using py_join_split [of "CHR ''/''" "clean_response r"] assms(2) by simp
  then show "clean_response r = p0 @ ''/'' @ py_join ''/'' (p1 # p2 # others)"
    by simp
qed

theorem C10_unknown_prefix_rejoined_witness:
  "''A/B/C'' \<noteq> []
   \<and> py_split CHR ''/'' (clean_response ''A/B/C'') = ''A'' # ''B'' # ''C'' # []
   \<and> \<not> is_category_key (''A'' @ ''/'' @ ''B'')
   \<and> parse_classification (Some ''A/B/C'') = (Some ''A'', Some ''B/C'')"
proof -
  have h1: "''A/B/C'' \<noteq> []" by simp
  have h2: "py_split CHR ''/'' (clean_response ''A/B/C'') = ''A'' # ''B'' # ''C'' # []"
    by (simp add: clean_response_def py_strip_def py_strip_by_def py_isspace_def)
  have h3: "\<not> is_category_key (''A'' @ ''/'' @ ''B'')"
    by (simp add: is_category_key_def CATEGORY_STRUCTURE_def)
  from C10_unknown_prefix_rejoined [OF h1 h2 h3] h1 h2 h3 show ?thesis by simp
qed

section \<open>The audit log\<close>

lemma existing_entries_cases:
  "existing_entries log =
     (case log of
        None \<Rightarrow> []
      | Some [] \<Rightarrow> []
      | Some (h # rest) \<Rightarrow> (if h = LOG_HEADER then rest else h # rest))"
  by (auto simp: existing_entries_def split: option.splits list.splits)

lemma existing_entries_header: "existing_entries (Some (LOG_HEADER # rows)) = rows"
  by (simp add: existing_entries_def)

lemma log_file_move_ok:
  "log_file_move w Log_io_ok t old new d =
     Some (w\<lparr>audit := Some (LOG_HEADER # [t, old, new, path_str d]
                              # existing_entries (audit w))\<rparr>)"
  by (simp add: log_file_move_def)

lemma log_file_move_files: "log_file_move w io t old new d = Some w' \<Longrightarrow> files w' = files w"
  by (auto simp: log_file_move_def Let_def split: if_splits)

lemma log_file_moves_ok:
  "cs \<noteq> [] \<Longrightarrow> list_all (\<lambda>c. fst c = Log_io_ok) cs \<Longrightarrow>
   log_file_moves w cs =
     Some (w\<lparr>audit := Some (LOG_HEADER # rev (map entry_row cs)
                              @ existing_entries (audit w))\<rparr>)"
proof (induction cs arbitrary: w)
  case Nil
  then show ?case by simp
next
  case (Cons c cs)
  obtain io t old new d where c: "c = (io, t, old, new, d)" by (cases c) auto
  with Cons.prems have io: "io = Log_io_ok" by simp
  show ?case
  proof (cases "cs = []")
    case True
    then show ?thesis by (simp add: c io log_file_move_ok entry_row_def)
  next
    case False
    from Cons.prems have "list_all (\<lambda>c. fst c = Log_io_ok) cs" by simp
    from Cons.IH [OF False this] show ?thesis
      by (simp add: c io log_file_move_ok existing_entries_header entry_row_def)
  qed
qed

text \<open>
  C6, as the code has it. A sequence of one or more appends to the audit log is made, and
  at none of them does reading or writing the log file raise. Then every call returns, the
  files and directories are untouched, and the log read back is the header row, then the
  new records with the most recent first, then all the data rows that were there before:
  none when the log did not exist or was empty, the rows after the first when the first row
  was the header, and every row, the first included, when the first row was not the
  header. Each append writes the whole file: header, new record, previous data rows.
\<close>

theorem C6_audit_round_trip:
  assumes "cs \<noteq> []" and "list_all (\<lambda>c. fst c = Log_io_ok) cs"
  shows "\<exists>w'. log_file_moves w cs = Some w'
           \<and> files w' = files w \<and> dirs w' = dirs w
           \<and> audit w' =
               Some (LOG_HEADER # rev (map entry_row cs) @
                     (case audit w of
                        None \<Rightarrow> []
                      | Some [] \<Rightarrow> []
                      | Some (h # rest) \<Rightarrow> (if h = LOG_HEADER then rest else h # rest)))"
  using log_file_moves_ok [OF assms, of w] by (simp add: existing_entries_cases)

theorem C6_audit_round_trip_witness:
  "[(Log_io_ok, ''t1'', ''a.pdf'', ''b.pdf'', [''/'', ''x'']),
    (Log_io_ok, ''t2'', ''c.pdf'', ''c.pdf'', [''/'', ''y''])] \<noteq> []
   \<and> map_option audit
        (log_file_moves
           (sample_world\<lparr>audit := Some [[''old'', ''row''], [''t0'', ''o'', ''n'', ''/z'']]\<rparr>)
           [(Log_io_ok, ''t1'', ''a.pdf'', ''b.pdf'', [''/'', ''x'']),
            (Log_io_ok, ''t2'', ''c.pdf'', ''c.pdf'', [''/'', ''y''])])
      = Some (Some [LOG_HEADER,
                    [''t2'', ''c.pdf'', ''c.pdf'', ''/y''],
                    [''t1'', ''a.pdf'', ''b.pdf'', ''/x''],
                    [''old'', ''row''],
                    [''t0'', ''o'', ''n'', ''/z'']])"
proof -
  let ?cs = "[(Log_io_ok, ''t1'', ''a.pdf'', ''b.pdf'', [''/'', ''x'']),
              (Log_io_ok, ''t2'', ''c.pdf'', ''c.pdf'', [''/'', ''y''])] :: log_call list"
  let ?w = "sample_world\<lparr>audit := Some [[''old'', ''row''], [''t0'', ''o'', ''n'', ''/z'']]\<rparr>"
  have h1: "?cs \<noteq> []" by simp
  have h2: "list_all (\<lambda>c. fst c = Log_io_ok) ?cs" by simp
  have ne: "[''old'', ''row''] \<noteq> LOG_HEADER" by (simp add: LOG_HEADER_def)
  from C6_audit_round_trip [OF h1 h2, of ?w]
  obtain w' where "log_file_moves ?w ?cs = Some w'"
    and "audit w' = Some [LOG_HEADER,
                          [''t2'', ''c.pdf'', ''c.pdf'', ''/y''],
                          [''t1'', ''a.pdf'', ''b.pdf'', ''/x''],
                          [''old'', ''row''],
                          [''t0'', ''o'', ''n'', ''/z'']]"
    using ne by (auto simp: entry_row_def path_str_def py_startswith_def)
  with h1 show ?thesis by simp
qed

text \<open>
  The claim as the spec states it fails for an append at which reading the existing log
  raises: the call raises, the move that made it returns \<open>False\<close> with the file already
  moved, and the log read back has no new record.
\<close>

theorem C6_log_read_raises_counterexample:
  "log_file_move (collision_world\<lparr>audit := Some [LOG_HEADER, [''t0'', ''o'', ''n'', ''/z'']]\<rparr>)
     Log_read_raises ''t1'' ''a.pdf'' ''a.pdf'' [''dest''] = None
   \<and> move_file_to_destination
        (collision_world\<lparr>audit := Some [LOG_HEADER, [''t0'', ''o'', ''n'', ''/z'']]\<rparr>)
        Log_read_raises ''t1'' [''inbox'', ''a.pdf''] (Some [''dest'']) None
       = (False,
          \<lparr>files = [[''tmp'', ''a.pdf''] \<mapsto> 2, [''dest'', ''a.pdf''] \<mapsto> 1],
           dirs = {[''inbox''], [''tmp''], [''dest'']},
           audit = Some [LOG_HEADER, [''t0'', ''o'', ''n'', ''/z'']]\<rparr>)"
  by (auto simp: log_file_move_def move_file_to_destination_def mkdir_parents_def
      collision_world_def Let_def pjoin_def path_parts_def py_startswith_def path_name_def
      path_exists_def rename_file_def path_parent_def is_dir_def)


section \<open>Destination resolution for unknown categories\<close>

lemma py_split_parts_no_sep: "p \<in> set (py_split sep s) \<Longrightarrow> sep \<notin> set p"
proof (induction s arbitrary: p)
  case Nil
  then show ?case by simp
next
  case (Cons c cs)
  then show ?case
    by (cases "py_split sep cs") (auto split: if_splits)
qed

text \<open>
  The categories that reach destination resolution come from the parser (the two calls in
  \<open>main\<close>). A category the parser returns is a key of the taxonomy or has no slash.
\<close>

lemma parsed_category_shape:
  assumes "parse_classification result = (Some category, subcategory)"
  shows "is_category_key category \<or> CHR ''/'' \<notin> set category"
proof -
  from assms obtain raw where raw: "result = Some raw" "raw \<noteq> []"
    by (cases result) (auto simp: parse_classification_def split: if_splits)
  let ?parts = "py_split CHR ''/'' (clean_response raw)"
  have nosep: "\<And>p. p \<in> set ?parts \<Longrightarrow> CHR ''/'' \<notin> set p"
    by (rule py_split_parts_no_sep)
  show ?thesis
  proof (cases ?parts)
    case Nil
    with py_split_not_Nil [of "CHR ''/''" "clean_response raw"] show ?thesis by simp
  next
    case (Cons p0 ps)
    note parts = Cons
    then have p0: "CHR ''/'' \<notin> set p0" using nosep [of p0] by simp
    show ?thesis
    proof (cases ps)
      case Nil
      with parts assms raw p0 show ?thesis
        by (auto simp: parse_classification_def Let_def)
    next
      case (Cons p1 rest)
      with parts assms raw p0 show ?thesis
        by (cases rest) (auto simp: parse_classification_def Let_def split: if_splits)
    qed
  qed
qed

lemma no_slash_not_startswith:
  assumes "CHR ''/'' \<notin> set category"
  shows "\<not> py_startswith category ''Financial/'' \<and> \<not> py_startswith category ''Kids/''
         \<and> \<not> py_startswith category ''Personal/'' \<and> \<not> py_startswith category ''Purchases/''"
proof -
  have "\<And>t. py_startswith category t \<Longrightarrow> set t \<subseteq> set category"
    unfolding py_startswith_def by (metis set_take_subset)
  from this [of "''Financial/''"] this [of "''Kids/''"] this [of "''Personal/''"]
       this [of "''Purchases/''"] assms
  show ?thesis by auto
qed

lemma unknown_plain_category:
  assumes "\<not> is_category_key category" and "CHR ''/'' \<notin> set category"
  shows "get_folder_path_for_category category subcategory = pjoin DOCUMENTS_BASE_PATH ''Misc. ''"
proof -
  from assms(1) have "category \<noteq> ''Medical''" "category \<noteq> ''Career''" "category \<noteq> ''Cars''"
    "category \<noteq> ''Sheet Music''" "category \<noteq> ''Recipes''" "category \<noteq> ''User Manuals''"
    by (auto simp: is_category_key_def CATEGORY_STRUCTURE_def)
  with no_slash_not_startswith [OF assms(2)] show ?thesis
    by (simp add: get_folder_path_for_category_def Let_def)
qed

text \<open>
  C7. Every category that the parser returns and that is not a key of the static taxonomy
  is mapped by destination resolution to the single catch-all folder \<open>Misc. \<close> under the
  documents base path, whatever the subcategory.
\<close>

theorem C7_unknown_category_to_misc:
  assumes "parse_classification result = (Some category, parsed_subcategory)"
    and "\<not> is_category_key category"
  shows "get_folder_path_for_category category subcategory = pjoin DOCUMENTS_BASE_PATH ''Misc. ''"
  using parsed_category_shape [OF assms(1)] assms(2) unknown_plain_category by blast

theorem C7_unknown_category_to_misc_witness:
  "parse_classification (Some ''Invoices/2025'') = (Some ''Invoices'', Some ''2025'')
   \<and> \<not> is_category_key ''Invoices''
   \<and> get_folder_path_for_category ''Invoices'' (Some ''2025'')
       = [''/'', ''Users'', ''anthonywheeler'', ''Library'', ''Mobile Documents'',
          ''com~apple~CloudDocs'', ''Documents'', ''Misc. '']"
proof -
  have h1: "parse_classification (Some ''Invoices/2025'') = (Some ''Invoices'', Some ''2025'')"
    by (simp add: parse_classification_def clean_response_def py_strip_def py_strip_by_def
        py_isspace_def is_category_key_def CATEGORY_STRUCTURE_def)
  have h2: "\<not> is_category_key ''Invoices''"
    by (simp add: is_category_key_def CATEGORY_STRUCTURE_def)
  have misc: "pjoin DOCUMENTS_BASE_PATH ''Misc. ''
                = [''/'', ''Users'', ''anthonywheeler'', ''Library'', ''Mobile Documents'',
                   ''com~apple~CloudDocs'', ''Documents'', ''Misc. '']"
    by (simp add: pjoin_def path_parts_def py_startswith_def DOCUMENTS_BASE_PATH_def)
  from C7_unknown_category_to_misc [OF h1 h2, of "Some ''2025''"] misc h1 h2
  show ?thesis by simp
qed


section \<open>The extraction cascade\<close>

lemmas extraction_defs =
  extract_text_from_pdf_def ensure_file_downloaded_def verify_temp_def finish_extraction_def
  stage_a_def stage_b_def stage_c_def direct_read_method_def cleanup_on_error_def
  sample_extract_def sample_download_def py_strip_def py_strip_by_def py_isspace_def Let_def

lemma copy_loop_first: "copy_loop (\<lambda>attempt. Some 10) 0 5 = Broke 10"
  by code_simp

lemma trace_of_finish:
  "trace_of (finish_extraction env use_temp scratch text trace) =
     (if use_temp \<and> scratch \<noteq> None then trace @ [Temp_unlink] else trace)"
  by (simp add: finish_extraction_def)

text \<open>
  C2. When the text of Stage A has at least 50 characters after trimming, neither Stage B
  nor Stage C is entered. Stage B is entered only when the trimmed text of Stage A is
  shorter than 50 characters, and Stage C only when the trimmed text accumulated before it
  (that of Stage B where Stage B ran, that of Stage A otherwise) is shorter than 50
  characters.
\<close>

theorem C2_cascade_short_circuit:
  "(50 \<le> length (py_strip (stage_a env)) \<longrightarrow>
      Stage_B \<notin> set (trace_of (extract_text_from_pdf env scratch0))
      \<and> Stage_C \<notin> set (trace_of (extract_text_from_pdf env scratch0)))
   \<and> (Stage_B \<in> set (trace_of (extract_text_from_pdf env scratch0)) \<longrightarrow>
        length (py_strip (stage_a env)) < 50)
   \<and> (Stage_C \<in> set (trace_of (extract_text_from_pdf env scratch0)) \<longrightarrow>
        length (py_strip (if length (py_strip (stage_a env)) < 50
                          then stage_b env (stage_a env) else stage_a env)) < 50)"
  by (auto simp: extract_text_from_pdf_def Let_def trace_of_finish
      split: prod.splits download_result.splits option.splits if_splits)

theorem C2_cascade_short_circuit_witness:
  "50 \<le> length (py_strip (stage_a sample_extract))
   \<and> Stage_B \<notin> set (trace_of (extract_text_from_pdf sample_extract None))
   \<and> Stage_C \<notin> set (trace_of (extract_text_from_pdf sample_extract None))
   \<and> Stage_B \<in> set (trace_of (extract_text_from_pdf (sample_extract\<lparr>pypdf2_pages := []\<rparr>) None))
   \<and> Stage_C \<in> set (trace_of (extract_text_from_pdf (sample_extract\<lparr>pypdf2_pages := []\<rparr>) None))
   \<and> length (py_strip (stage_a (sample_extract\<lparr>pypdf2_pages := []\<rparr>))) < 50"
proof -
  have long: "50 \<le> length (py_strip (stage_a sample_extract))"
    by (simp add: stage_a_def sample_extract_def py_strip_def py_strip_by_def py_isspace_def)
  have trace: "trace_of (extract_text_from_pdf (sample_extract\<lparr>pypdf2_pages := []\<rparr>) None)
                 = [Stage_A, Stage_B, Stage_C]"
    by (simp add: extraction_defs copy_loop_first)
  from C2_cascade_short_circuit [of sample_extract None]
       C2_cascade_short_circuit [of "sample_extract\<lparr>pypdf2_pages := []\<rparr>" None]
       long trace
  show ?thesis by simp
qed

text \<open>
  C3, the code at a failing input. The resolver hands back the scratch copy (the copy
  succeeds and the original still cannot be read), Stages A and B give no text, and the OCR
  libraries are missing, or the OCR of a page raises. The function then returns the empty
  text from inside the OCR handler: the cleanup at its end is not reached, no removal of
  the scratch copy is attempted, and the scratch copy is still there.
\<close>

theorem C3_scratch_left_after_ocr_failure:
  "ensure_file_downloaded (sample_download\<lparr>original_readable := False\<rparr>) None
     = (DL_Temp, Some 10)
   \<and> extract_text_from_pdf
        (sample_extract\<lparr>download := sample_download\<lparr>original_readable := False\<rparr>,
                        pypdf2_pages := [Some []], ocr_available := False\<rparr>) None
       = \<lparr>text_of = [], scratch_of = Some 10, trace_of = [Stage_A, Stage_B, Stage_C]\<rparr>
   \<and> extract_text_from_pdf
        (sample_extract\<lparr>download := sample_download\<lparr>original_readable := False\<rparr>,
                        pypdf2_pages := [Some []], ocr_pages := [Some ''x'', None]\<rparr>) None
       = \<lparr>text_of = [], scratch_of = Some 10, trace_of = [Stage_A, Stage_B, Stage_C]\<rparr>"
  by (simp add: extraction_defs copy_loop_first)


section \<open>The availability resolver\<close>

text \<open>
  C9, as the code has it. When the copy loop leaves a non-empty scratch copy: if the
  original can then be read and the removal of the scratch copy succeeds, the scratch copy
  is gone and the result is \<open>True\<close> (the original is ready); if the original still cannot be
  read, the result is the scratch path and the scratch copy is left in place.
\<close>

theorem C9_resolver_after_copy:
  assumes "copy_loop (copy_result env) 0 5 = Broke sz" and "0 < sz"
  shows "(original_readable env \<and> unlink_after_read_ok env \<longrightarrow>
            ensure_file_downloaded env scratch0 = (DL_True, None))
         \<and> (\<not> original_readable env \<longrightarrow>
            ensure_file_downloaded env scratch0 = (DL_Temp, Some sz))"
  using assms by (simp add: ensure_file_downloaded_def verify_temp_def)

theorem C9_resolver_after_copy_witness:
  "copy_loop (copy_result sample_download) 0 5 = Broke 10 \<and> (0::nat) < 10
   \<and> original_readable sample_download \<and> unlink_after_read_ok sample_download
   \<and> ensure_file_downloaded sample_download None = (DL_True, None)
   \<and> copy_loop (copy_result (sample_download\<lparr>original_readable := False\<rparr>)) 0 5 = Broke 10
   \<and> \<not> original_readable (sample_download\<lparr>original_readable := False\<rparr>)
   \<and> ensure_file_downloaded (sample_download\<lparr>original_readable := False\<rparr>) None
       = (DL_Temp, Some 10)"
proof -
  have h1: "copy_loop (copy_result sample_download) 0 5 = Broke 10"
    by (simp add: sample_download_def copy_loop_first)
  have h2: "copy_loop (copy_result (sample_download\<lparr>original_readable := False\<rparr>)) 0 5 = Broke 10"
    by (simp add: sample_download_def copy_loop_first)
  have pos: "(0::nat) < 10" by simp
  have flags: "original_readable sample_download \<and> unlink_after_read_ok sample_download
               \<and> \<not> original_readable (sample_download\<lparr>original_readable := False\<rparr>)"
    by (simp add: sample_download_def)
  from C9_resolver_after_copy [OF h1 pos, of None]
       C9_resolver_after_copy [OF h2 pos, of None] h1 h2 flags
  show ?thesis by simp
qed

text \<open>
  The claim as the spec states it fails where the removal of the scratch copy raises: the
  original has been read, and yet the result is the scratch path, with the scratch copy in
  place.
\<close>

theorem C9_unlink_failure_counterexample:
  "copy_loop (copy_result (sample_download\<lparr>unlink_after_read_ok := False\<rparr>)) 0 5 = Broke 10
   \<and> original_readable (sample_download\<lparr>unlink_after_read_ok := False\<rparr>)
   \<and> ensure_file_downloaded (sample_download\<lparr>unlink_after_read_ok := False\<rparr>) None
       = (DL_Temp, Some 10)"
  by (simp add: extraction_defs copy_loop_first)


section \<open>The filing engine\<close>

lemma not_startswith_slash: "proper_name n \<Longrightarrow> \<not> py_startswith n ''/''"
  by (cases n) (auto simp: proper_name_def py_startswith_def)

lemma pjoin_proper_name: "proper_name n \<Longrightarrow> pjoin d n = d @ [n]"
  using not_startswith_slash [of n]
  by (simp add: pjoin_def path_parts_def py_split_no_sep proper_name_def)





lemma mkdir_parents_frame:
  "mkdir_parents w d = Some w1 \<Longrightarrow> files w1 = files w \<and> audit w1 = audit w"
  by (auto simp: mkdir_parents_def Let_def split: if_splits)

lemma rename_file_target:
  "rename_file w src dst = Some w2 \<Longrightarrow> files w src = Some doc \<Longrightarrow> files w2 dst = Some doc"
  by (auto simp: rename_file_def split: if_splits option.splits)



text \<open>A move never changes the name of the document it is given.\<close>

lemma move_keeps_name:
  assumes "proper_name (path_name s)" and "files w s = Some doc"
  shows "files (snd (move_file_to_destination w io t s (Some d) orig)) s = Some doc
         \<or> files (snd (move_file_to_destination w io t s (Some d) orig)) (d @ [path_name s])
             = Some doc"
proof (cases "mkdir_parents w d")
  case None
  with assms show ?thesis by (simp add: move_file_to_destination_def)
next
  case (Some w1)
  note made = Some
  from mkdir_parents_frame [OF made] have fw1: "files w1 = files w" by simp
  show ?thesis
  proof (cases "rename_file w1 s (d @ [path_name s])")
    case None
    with made assms fw1 show ?thesis
      by (simp add: move_file_to_destination_def pjoin_proper_name Let_def)
  next
    case (Some w2)
    from rename_file_target [OF Some] assms(2) fw1
    have "files w2 (d @ [path_name s]) = Some doc" by simp
    with Some made assms fw1 show ?thesis
      by (auto simp: move_file_to_destination_def pjoin_proper_name Let_def
          dest: log_file_move_files split: option.splits)
  qed
qed





section \<open>The run driver\<close>

lemma matches_dated_name_proper: "matches_dated_name n \<Longrightarrow> n \<noteq> [] \<and> n \<noteq> ''.''"
  by (auto simp: matches_dated_name_def split: list.splits)

lemma dated_sample_name: "matches_dated_name ''2025-01-01 - x.pdf''"
  by code_simp

lemma undated_sample_name: "\<not> matches_dated_name ''scan001.pdf''"
  by code_simp

lemma sample_text: "text_of (extract_text_from_pdf sample_extract None) \<noteq> []"
  by (simp add: extraction_defs copy_loop_first)

lemma sample_no_text:
  "text_of (extract_text_from_pdf (sample_extract\<lparr>pypdf2_pages := []\<rparr>) None) = []"
  by (simp add: extraction_defs copy_loop_first)

lemma sample_classification:
  "classify_file_category (\<lambda>s. s) (Completed 0 ''Misc'') = (Some ''Misc'', None)"
  by (simp add: classify_file_category_def parse_classification_def clean_response_def
      py_strip_def py_strip_by_def py_isspace_def)

lemma sample_destination:
  "resolve_dest_folder (Some ''Misc'', None)
     = Some [''/'', ''Users'', ''anthonywheeler'', ''Library'', ''Mobile Documents'',
             ''com~apple~CloudDocs'', ''Documents'', ''Misc. '']"
  by (simp add: resolve_dest_folder_def get_folder_path_for_category_def py_startswith_def
      pjoin_def path_parts_def DOCUMENTS_BASE_PATH_def)

text \<open>
  C5, as the code has it. For a file whose name has the dated form, the step of the run
  asks the assistant for no filename and renames nothing. When the extraction gave text,
  the file is classified, and when the classification gives a category, the file is handed
  to the move, with its own name as the original name, into the resolved folder. In every
  case a document that was at the file's path is afterwards at that path or in some folder
  under the same file name.
\<close>

theorem C5_dated_name_kept:
  assumes m: "matches_dated_name (path_name pdf_file)"
  shows "Filename_requested \<notin> set (events_of (process_pdf env scratch0 w pdf_file))
    \<and> (\<forall>a b. Renamed a b \<notin> set (events_of (process_pdf env scratch0 w pdf_file)))
    \<and> (text_of (extract_text_from_pdf (extraction_env env) scratch0) \<noteq> [] \<longrightarrow>
         Classify_called \<in> set (events_of (process_pdf env scratch0 w pdf_file))
         \<and> (\<forall>d. resolve_dest_folder
                   (classify_file_category (rtf_to_text env) (classify_run env)) = Some d
              \<longrightarrow> Move_called pdf_file d (path_name pdf_file)
                     \<in> set (events_of (process_pdf env scratch0 w pdf_file))
                  \<and> world_of (process_pdf env scratch0 w pdf_file)
                      = snd (move_file_to_destination w (audit_io env) (move_timestamp env)
                               pdf_file (Some d) (Some (path_name pdf_file)))))
    \<and> (\<forall>doc. CHR ''/'' \<notin> set (path_name pdf_file) \<and> files w pdf_file = Some doc \<longrightarrow>
          files (world_of (process_pdf env scratch0 w pdf_file)) pdf_file = Some doc
          \<or> (\<exists>d. files (world_of (process_pdf env scratch0 w pdf_file))
                     (d @ [path_name pdf_file]) = Some doc))"
proof -
  have ev: "Filename_requested \<notin> set (events_of (process_pdf env scratch0 w pdf_file))
    \<and> (\<forall>a b. Renamed a b \<notin> set (events_of (process_pdf env scratch0 w pdf_file)))"
    using m by (auto simp: process_pdf_def process_override_def Let_def split: option.splits)
  have cl: "text_of (extract_text_from_pdf (extraction_env env) scratch0) \<noteq> [] \<longrightarrow>
         Classify_called \<in> set (events_of (process_pdf env scratch0 w pdf_file))
         \<and> (\<forall>d. resolve_dest_folder
                   (classify_file_category (rtf_to_text env) (classify_run env)) = Some d
              \<longrightarrow> Move_called pdf_file d (path_name pdf_file)
                     \<in> set (events_of (process_pdf env scratch0 w pdf_file))
                  \<and> world_of (process_pdf env scratch0 w pdf_file)
                      = snd (move_file_to_destination w (audit_io env) (move_timestamp env)
                               pdf_file (Some d) (Some (path_name pdf_file))))"
    using m by (auto simp: process_pdf_def process_override_def Let_def split: option.splits)
  have nm: "\<forall>doc. CHR ''/'' \<notin> set (path_name pdf_file) \<and> files w pdf_file = Some doc \<longrightarrow>
          files (world_of (process_pdf env scratch0 w pdf_file)) pdf_file = Some doc
          \<or> (\<exists>d. files (world_of (process_pdf env scratch0 w pdf_file))
                     (d @ [path_name pdf_file]) = Some doc)"
  proof (intro allI impI)
    fix doc
    assume a: "CHR ''/'' \<notin> set (path_name pdf_file) \<and> files w pdf_file = Some doc"
    with matches_dated_name_proper [OF m] have pn: "proper_name (path_name pdf_file)"
      by (simp add: proper_name_def)
    from a have f: "files w pdf_file = Some doc" by simp
    show "files (world_of (process_pdf env scratch0 w pdf_file)) pdf_file = Some doc
          \<or> (\<exists>d. files (world_of (process_pdf env scratch0 w pdf_file))
                     (d @ [path_name pdf_file]) = Some doc)"
    proof (cases "text_of (extract_text_from_pdf (extraction_env env) scratch0) = []")
      case True
      with f show ?thesis by (simp add: process_pdf_def)
    next
      case False
      show ?thesis
      proof (cases "resolve_dest_folder
                      (classify_file_category (rtf_to_text env) (classify_run env))")
        case None
        with False m f show ?thesis
          by (simp add: process_pdf_def process_override_def)
      next
        case (Some d)
        from move_keeps_name [OF pn f, of "audit_io env" "move_timestamp env" d
            "Some (path_name pdf_file)"]
        show ?thesis using False m Some
          by (auto simp: process_pdf_def process_override_def)
      qed
    qed
  qed
  from ev cl nm show ?thesis by blast
qed

theorem C5_dated_name_kept_witness:
  "matches_dated_name (path_name [''inbox'', ''2025-01-01 - x.pdf''])
   \<and> text_of (extract_text_from_pdf (extraction_env sample_file_env) None) \<noteq> []
   \<and> resolve_dest_folder
        (classify_file_category (rtf_to_text sample_file_env) (classify_run sample_file_env))
       = Some [''/'', ''Users'', ''anthonywheeler'', ''Library'', ''Mobile Documents'',
               ''com~apple~CloudDocs'', ''Documents'', ''Misc. '']
   \<and> Filename_requested
        \<notin> set (events_of (process_pdf sample_file_env None sample_world
                            [''inbox'', ''2025-01-01 - x.pdf'']))
   \<and> Classify_called
        \<in> set (events_of (process_pdf sample_file_env None sample_world
                            [''inbox'', ''2025-01-01 - x.pdf'']))
   \<and> Move_called [''inbox'', ''2025-01-01 - x.pdf'']
        [''/'', ''Users'', ''anthonywheeler'', ''Library'', ''Mobile Documents'',
         ''com~apple~CloudDocs'', ''Documents'', ''Misc. '']
        ''2025-01-01 - x.pdf''
        \<in> set (events_of (process_pdf sample_file_env None sample_world
                            [''inbox'', ''2025-01-01 - x.pdf'']))
   \<and> files (world_of (process_pdf sample_file_env None sample_world
                        [''inbox'', ''2025-01-01 - x.pdf'']))
        [''/'', ''Users'', ''anthonywheeler'', ''Library'', ''Mobile Documents'',
         ''com~apple~CloudDocs'', ''Documents'', ''Misc. '', ''2025-01-01 - x.pdf''] = Some 2"
proof -
  let ?p = "[''inbox'', ''2025-01-01 - x.pdf'']"
  let ?misc = "[''/'', ''Users'', ''anthonywheeler'', ''Library'', ''Mobile Documents'',
                ''com~apple~CloudDocs'', ''Documents'', ''Misc. '']"
  have name: "path_name ?p = ''2025-01-01 - x.pdf''" by (simp add: path_name_def)
  have h: "matches_dated_name (path_name ?p)" by (simp add: name dated_sample_name)
  have has_text: "text_of (extract_text_from_pdf (extraction_env sample_file_env) None) \<noteq> []"
    using sample_text by (simp add: sample_file_env_def)
  have dest: "resolve_dest_folder
                (classify_file_category (rtf_to_text sample_file_env)
                   (classify_run sample_file_env)) = Some ?misc"
    by (simp add: sample_file_env_def sample_classification sample_destination)
  have ts: "move_timestamp sample_file_env = ''2025-01-20 10:00:00''
            \<and> audit_io sample_file_env = Log_io_ok"
    by (simp add: sample_file_env_def)
  have moved: "files (snd (move_file_to_destination sample_world Log_io_ok
                             ''2025-01-20 10:00:00'' ?p
                             (Some ?misc) (Some ''2025-01-01 - x.pdf'')))
                 (?misc @ [''2025-01-01 - x.pdf'']) = Some 2"
    by (simp add: move_file_to_destination_def mkdir_parents_def sample_world_def Let_def
        pjoin_def path_parts_def py_startswith_def path_name_def path_exists_def
        rename_file_def path_parent_def is_dir_def log_file_move_def)
  from C5_dated_name_kept [OF h, of sample_file_env None sample_world] has_text dest
  have "Filename_requested \<notin> set (events_of (process_pdf sample_file_env None sample_world ?p))
        \<and> Classify_called \<in> set (events_of (process_pdf sample_file_env None sample_world ?p))
        \<and> Move_called ?p ?misc (path_name ?p)
             \<in> set (events_of (process_pdf sample_file_env None sample_world ?p))
        \<and> world_of (process_pdf sample_file_env None sample_world ?p)
             = snd (move_file_to_destination sample_world (audit_io sample_file_env)
                      (move_timestamp sample_file_env) ?p (Some ?misc) (Some (path_name ?p)))"
    by blast
  with h has_text dest moved show ?thesis by (simp add: name ts)
qed

text \<open>
  The claim as the spec states it fails for a file of the dated form whose extraction gives
  no text: the file is skipped before it is classified, and it is neither classified nor
  filed.
\<close>

theorem C5_no_text_counterexample:
  "matches_dated_name (path_name [''inbox'', ''2025-01-01 - x.pdf''])
   \<and> process_pdf (sample_file_env\<lparr>extraction_env := sample_extract\<lparr>pypdf2_pages := []\<rparr>\<rparr>) None
        sample_world [''inbox'', ''2025-01-01 - x.pdf'']
       = \<lparr>world_of = sample_world, events_of = []\<rparr>"
  by (simp add: path_name_def dated_sample_name process_pdf_def sample_file_env_def
      sample_no_text)

text \<open>
  C8, the code at a failing input. The file \<open>scan001.pdf\<close> has text and is classified as
  \<open>Misc\<close>, so that its destination is resolved; the run of the assistant for the filename
  times out, or exits with a non-zero code, or gives an empty response. In each case the
  step ends after the request for the filename: no move is made, the audit log is not
  written, and the document stays in the inbox.
\<close>

theorem C8_no_filename_no_filing:
  "resolve_dest_folder
      (classify_file_category (rtf_to_text sample_file_env) (classify_run sample_file_env))
     = Some [''/'', ''Users'', ''anthonywheeler'', ''Library'', ''Mobile Documents'',
             ''com~apple~CloudDocs'', ''Documents'', ''Misc. '']
   \<and> generate_filename (\<lambda>s. s) TimeoutExpired = None
   \<and> generate_filename (\<lambda>s. s) (Completed 1 []) = None
   \<and> generate_filename (\<lambda>s. s) (Completed 0 []) = Some []
   \<and> process_pdf (sample_file_env\<lparr>filename_run := TimeoutExpired\<rparr>) None
        sample_world [''inbox'', ''scan001.pdf'']
       = \<lparr>world_of = sample_world, events_of = [Classify_called, Filename_requested]\<rparr>
   \<and> process_pdf (sample_file_env\<lparr>filename_run := Completed 1 []\<rparr>) None
        sample_world [''inbox'', ''scan001.pdf'']
       = \<lparr>world_of = sample_world, events_of = [Classify_called, Filename_requested]\<rparr>
   \<and> process_pdf (sample_file_env\<lparr>filename_run := Completed 0 []\<rparr>) None
        sample_world [''inbox'', ''scan001.pdf'']
       = \<lparr>world_of = sample_world, events_of = [Classify_called, Filename_requested]\<rparr>"
  using sample_text
  by (simp add: path_name_def undated_sample_name process_pdf_def process_rename_def
      sample_file_env_def generate_filename_def py_strip_def py_strip_by_def Let_def
      sample_classification sample_destination)

end
